theory Spec2Isabelle
  imports Complex_Main
begin

section \<open>Outlier detection and handling strategies (funimpute/outliers.py)\<close>

text \<open>
  The module has four functions: \<open>detect_outliers_iqr\<close>, \<open>detect_outliers_zscore\<close>,
  \<open>suggest_outlier_handling\<close> and \<open>analyze_outliers\<close>. They are embedded below under
  their own names, in the order of the source.

  Numbers. A column holds real numbers and a missing-value marker, so a series is a
  \<open>real option list\<close> (\<open>None\<close> is the missing entry that \<open>dropna\<close> removes). A computed
  float is a \<open>pyfloat\<close>: a finite value, one of the two infinities, or not-a-number, with
  the comparison and arithmetic rules of IEEE 754 for the special values. Arithmetic on
  finite values is that of the reals. The program computes in float64: it rounds every
  operation, lets a result beyond the float range become an infinity, converts the values
  of an integer column to float64 before it compares them, and fails with
  \<open>OverflowError\<close> on an integer beyond the float range. None of this is in the model,
  so the quartiles and bounds below are the program's only where its arithmetic is exact
  (as on the small integers and quarters of the examples). The properties proved here are
  those that hold whatever the detector's numbers are: the rules of the selector, which
  only compares, the relations between the fields of the result, and the z-scores of a
  constant column.
\<close>

subsection \<open>Floats with not-a-number\<close>

datatype pyfloat = NaN | NInf | Fin real | PInf

fun fl_less :: "pyfloat \<Rightarrow> pyfloat \<Rightarrow> bool" where
  "fl_less NaN _ = False"
| "fl_less _ NaN = False"
| "fl_less (Fin a) (Fin b) = (a < b)"
| "fl_less NInf NInf = False"
| "fl_less NInf _ = True"
| "fl_less _ NInf = False"
| "fl_less PInf _ = False"
| "fl_less _ PInf = True"

fun fl_neg :: "pyfloat \<Rightarrow> pyfloat" where
  "fl_neg NaN = NaN"
| "fl_neg NInf = PInf"
| "fl_neg (Fin a) = Fin (- a)"
| "fl_neg PInf = NInf"

fun fl_abs :: "pyfloat \<Rightarrow> pyfloat" where
  "fl_abs NaN = NaN"
| "fl_abs NInf = PInf"
| "fl_abs (Fin a) = Fin \<bar>a\<bar>"
| "fl_abs PInf = PInf"

fun fl_add :: "pyfloat \<Rightarrow> pyfloat \<Rightarrow> pyfloat" where
  "fl_add (Fin a) (Fin b) = Fin (a + b)"
| "fl_add NaN _ = NaN"
| "fl_add _ NaN = NaN"
| "fl_add PInf NInf = NaN"
| "fl_add NInf PInf = NaN"
| "fl_add PInf _ = PInf"
| "fl_add _ PInf = PInf"
| "fl_add NInf _ = NInf"
| "fl_add _ NInf = NInf"

definition fl_sub :: "pyfloat \<Rightarrow> pyfloat \<Rightarrow> pyfloat" where
  "fl_sub x y = fl_add x (fl_neg y)"

fun fl_mul :: "pyfloat \<Rightarrow> pyfloat \<Rightarrow> pyfloat" where
  "fl_mul (Fin a) (Fin b) = Fin (a * b)"
| "fl_mul NaN _ = NaN"
| "fl_mul _ NaN = NaN"
| "fl_mul (Fin a) y = (if a = 0 then NaN else if 0 < a then y else fl_neg y)"
| "fl_mul x (Fin b) = (if b = 0 then NaN else if 0 < b then x else fl_neg x)"
| "fl_mul PInf y = y"
| "fl_mul NInf y = fl_neg y"

fun fl_div :: "pyfloat \<Rightarrow> pyfloat \<Rightarrow> pyfloat" where
  "fl_div (Fin a) (Fin b) =
     (if b \<noteq> 0 then Fin (a / b)
      else if a = 0 then NaN
      else if 0 < a then PInf else NInf)"
| "fl_div NaN _ = NaN"
| "fl_div _ NaN = NaN"
| "fl_div (Fin a) _ = Fin 0"
| "fl_div x (Fin b) = (if 0 \<le> b then x else fl_neg x)"
| "fl_div NInf NInf = NaN"
| "fl_div NInf PInf = NaN"
| "fl_div PInf NInf = NaN"
| "fl_div PInf PInf = NaN"

subsection \<open>The pandas and numpy operations the module calls\<close>

type_synonym series = "real option list"

text \<open>\<open>series.dropna()\<close>: the non-missing entries, in their order.\<close>

fun dropna :: "series \<Rightarrow> real list" where
  "dropna [] = []"
| "dropna (None # xs) = dropna xs"
| "dropna (Some x # xs) = x # dropna xs"

text \<open>\<open>series.count()\<close>: the number of non-missing entries.\<close>

definition series_count :: "series \<Rightarrow> int" where
  "series_count s = int (length (dropna s))"

text \<open>
  \<open>Series.quantile(q)\<close> with the default interpolation \<open>linear\<close>: on the sorted
  values, the virtual index is \<open>(n - 1) * q\<close>, and the result interpolates between the
  entries at its floor and its ceiling. On an empty series pandas gives not-a-number.
\<close>

definition quantile :: "real list \<Rightarrow> real \<Rightarrow> pyfloat" where
  "quantile xs q =
     (if xs = [] then NaN
      else
        let srt = sort xs;
            h = real (length xs - 1) * q;
            lo = nat \<lfloor>h\<rfloor>;
            hi = nat \<lceil>h\<rceil>
        in Fin (srt ! lo + (srt ! hi - srt ! lo) * (h - real lo)))"

text \<open>\<open>np.mean\<close> and \<open>np.std\<close> (population standard deviation, \<open>ddof = 0\<close>).\<close>

definition mean :: "real list \<Rightarrow> real" where
  "mean xs = sum_list xs / real (length xs)"

definition std :: "real list \<Rightarrow> real" where
  "std xs = sqrt (mean (map (\<lambda>x. (x - mean xs)\<^sup>2) xs))"

text \<open>\<open>scipy.stats.zscore\<close>: \<open>(x - mean) / std\<close> for every entry, as a float division.\<close>

definition zscore :: "real list \<Rightarrow> pyfloat list" where
  "zscore xs = map (\<lambda>x. fl_div (Fin (x - mean xs)) (Fin (std xs))) xs"

subsection \<open>Errors\<close>

datatype error = ZeroDivisionError | TypeError

text \<open>Python's \<open>a / b\<close> on integers: true division, raising on a zero divisor.\<close>

definition py_truediv :: "int \<Rightarrow> int \<Rightarrow> error + real" where
  "py_truediv a b = (if b = 0 then Inl ZeroDivisionError else Inr (real_of_int a / real_of_int b))"

text \<open>
  Python's \<open>x < y\<close> on two values either of which may be \<open>None\<close>: an order
  comparison with \<open>None\<close> raises, one between two floats follows IEEE 754.
\<close>

definition py_less :: "pyfloat option \<Rightarrow> pyfloat option \<Rightarrow> error + bool" where
  "py_less x y =
     (case x of
        None \<Rightarrow> Inl TypeError
      | Some a \<Rightarrow> (case y of None \<Rightarrow> Inl TypeError | Some b \<Rightarrow> Inr (fl_less a b)))"

text \<open>An exception ends the computation; a value is handed on.\<close>

definition bind_err :: "error + 'a \<Rightarrow> ('a \<Rightarrow> error + 'b) \<Rightarrow> error + 'b" where
  "bind_err x f = (case x of Inl e \<Rightarrow> Inl e | Inr v \<Rightarrow> f v)"

subsection \<open>The data model (funimpute/models.py)\<close>

text \<open>
  Modelled from the spec: \<open>models.py\<close> (the classes \<open>OutlierHandling\<close>,
  \<open>ColumnMetadata\<close>, \<open>AnalysisConfig\<close> and \<open>OutlierAnalysis\<close>) is imported by
  \<open>outliers.py\<close> and is not among the sources. The fields are those the code reads and
  writes, with the types of sections 3 and 6 of the specification; \<open>data_type\<close> is the
  string the code compares with \<open>'categorical'\<close>, \<open>'integer'\<close> and \<open>'float'\<close>.
\<close>

datatype OutlierHandling = LEAVE_AS_IS | CAP_TO_BOUNDS | CONVERT_TO_NAN

record ColumnMetadata =
  data_type :: string
  unique_flag :: bool
  min_value :: "real option"
  max_value :: "real option"

record AnalysisConfig =
  iqr_multiplier :: real
  outlier_threshold :: real

record OutlierAnalysis =
  outlier_count :: int
  outlier_percentage :: real
  lower_bound :: "pyfloat option"
  upper_bound :: "pyfloat option"
  outlier_values :: "real list"
  handling_strategy :: OutlierHandling
  rationale :: string

text \<open>
  The dictionary that \<open>suggest_outlier_handling\<close> receives. The code reads the count
  and the percentage by subscript and the two bounds with \<open>get\<close>, which gives
  \<open>None\<close> for a bound that the dictionary does not hold.
\<close>

record analysis_dict =
  dict_outlier_count :: int
  dict_outlier_percentage :: real
  dict_lower_bound :: "pyfloat option"
  dict_upper_bound :: "pyfloat option"

text \<open>
  String formatting is Python's own: \<open>percent1\<close> stands for the format \<open>:.1%\<close> of a
  float and \<open>str_real\<close> for \<open>str\<close> of a number. The functions below take both as a
  parameter.
\<close>

record py_format =
  percent1 :: "real \<Rightarrow> string"
  str_real :: "real \<Rightarrow> string"

definition str_opt :: "py_format \<Rightarrow> real option \<Rightarrow> string" where
  "str_opt F v = (case v of None \<Rightarrow> ''None'' | Some r \<Rightarrow> str_real F r)"

subsection \<open>detect_outliers_iqr\<close>

definition detect_outliers_iqr :: "series \<Rightarrow> real \<Rightarrow> real list \<times> pyfloat \<times> pyfloat" where
  "detect_outliers_iqr s multiplier =
     (let clean_series = dropna s in
      if length clean_series = 0 then ([], NaN, NaN)
      else
        let q1 = quantile clean_series (1 / 4);
            q3 = quantile clean_series (3 / 4);
            iqr = fl_sub q3 q1;
            lower = fl_sub q1 (fl_mul (Fin multiplier) iqr);
            upper = fl_add q3 (fl_mul (Fin multiplier) iqr);
            outliers = filter (\<lambda>x. fl_less (Fin x) lower \<or> fl_less upper (Fin x)) clean_series
        in (outliers, lower, upper))"

subsection \<open>detect_outliers_zscore\<close>

definition detect_outliers_zscore :: "series \<Rightarrow> real \<Rightarrow> real list" where
  "detect_outliers_zscore s threshold =
     (let clean_series = dropna s in
      if length clean_series = 0 then []
      else
        let z_scores = map fl_abs (zscore clean_series)
        in map fst (filter (\<lambda>(x, z). fl_less (Fin threshold) z) (zip clean_series z_scores)))"

subsection \<open>suggest_outlier_handling\<close>

definition suggest_outlier_handling ::
  "py_format \<Rightarrow> analysis_dict \<Rightarrow> ColumnMetadata \<Rightarrow> AnalysisConfig \<Rightarrow>
   error + OutlierHandling \<times> string" where
  "suggest_outlier_handling F outlier_analysis metadata config =
     (let count = dict_outlier_count outlier_analysis;
          percentage = dict_outlier_percentage outlier_analysis
      in
      if count = 0 then Inr (LEAVE_AS_IS, ''No outliers detected'')
      else if percentage > 2 / 10 then
        Inr (LEAVE_AS_IS,
             ''High outlier percentage ('' @ percent1 F percentage @ '') suggests '' @
             ''potential data distribution issue - investigate before handling'')
      else if unique_flag metadata then
        Inr (LEAVE_AS_IS, ''Unique identifier column - outliers should not be modified'')
      else if data_type metadata = ''categorical'' then
        Inr (LEAVE_AS_IS, ''Categorical data - outliers represent valid categories'')
      else
        bind_err
          (if min_value metadata \<noteq> None \<or> max_value metadata \<noteq> None then
             let lower = dict_lower_bound outlier_analysis;
                 upper = dict_upper_bound outlier_analysis;
                 v0 = False
             in
             bind_err
               (if min_value metadata \<noteq> None then
                  bind_err (py_less lower (Some (Fin (the (min_value metadata)))))
                    (\<lambda>below. Inr (if below then True else v0))
                else Inr v0)
               (\<lambda>v1.
                  if max_value metadata \<noteq> None then
                    bind_err (py_less (Some (Fin (the (max_value metadata)))) upper)
                      (\<lambda>above. Inr (if above then True else v1))
                  else Inr v1)
           else Inr False)
          (\<lambda>violates_business_rules.
             if violates_business_rules then
               Inr (CAP_TO_BOUNDS,
                    ''Outliers violate business rules (min: '' @
                    str_opt F (min_value metadata) @ '', max: '' @
                    str_opt F (max_value metadata) @ '') - cap to valid range'')
             else if percentage < outlier_threshold config \<and>
                     data_type metadata \<in> set [''integer'', ''float''] then
               Inr (CAP_TO_BOUNDS,
                    ''Low outlier percentage ('' @ percent1 F percentage @ '') - '' @
                    ''cap to statistical bounds to preserve data distribution'')
             else if percentage < 1 / 10 then
               Inr (CONVERT_TO_NAN,
                    ''Medium outlier percentage ('' @ percent1 F percentage @ '') - '' @
                    ''convert to NaN for imputation to avoid bias'')
             else
               Inr (LEAVE_AS_IS,
                    ''Outlier percentage ('' @ percent1 F percentage @
                    '') requires manual review'')))"

subsection \<open>analyze_outliers\<close>

definition analyze_outliers ::
  "py_format \<Rightarrow> series \<Rightarrow> ColumnMetadata \<Rightarrow> AnalysisConfig \<Rightarrow> error + OutlierAnalysis" where
  "analyze_outliers F s metadata config =
     (if data_type metadata \<notin> set [''integer'', ''float''] then
        Inr \<lparr> outlier_count = 0, outlier_percentage = 0, lower_bound = None,
              upper_bound = None, outlier_values = [], handling_strategy = LEAVE_AS_IS,
              rationale = ''Non-numeric data type ('' @ data_type metadata @
                          '') - no outlier detection'' \<rparr>
      else
        let (outlier_values_full, lower, upper) = detect_outliers_iqr s (iqr_multiplier config);
            count = int (length outlier_values_full);
            total_non_null = series_count s
        in
        bind_err (if total_non_null > 0 then py_truediv count total_non_null else Inr 0)
          (\<lambda>percentage.
             let outlier_analysis_dict =
                   \<lparr> dict_outlier_count = count, dict_outlier_percentage = percentage,
                     dict_lower_bound = Some lower, dict_upper_bound = Some upper \<rparr>
             in
             bind_err (suggest_outlier_handling F outlier_analysis_dict metadata config)
               (\<lambda>(strategy, why).
                  Inr \<lparr> outlier_count = count, outlier_percentage = percentage,
                        lower_bound = Some lower, upper_bound = Some upper,
                        outlier_values = take 10 outlier_values_full,
                        handling_strategy = strategy, rationale = why \<rparr>)))"

subsection \<open>The rules of the specification, for comparison\<close>

text \<open>
  Section 4.3 of the specification describes the selector as an ordered list of rules, the
  first matching rule giving the result, with a catch-all at the end. \<open>first_match\<close> is
  that evaluation and \<open>selector_rules\<close> is the list; the rationale of each rule is the
  string the code builds.
\<close>

fun first_match :: "(bool \<times> 'a) list \<Rightarrow> 'a \<Rightarrow> 'a" where
  "first_match [] d = d"
| "first_match ((c, r) # rs) d = (if c then r else first_match rs d)"

text \<open>
  The input tuple of the selector as the dictionary that holds its four entries.
\<close>

definition dict_of :: "int \<Rightarrow> real \<Rightarrow> pyfloat \<Rightarrow> pyfloat \<Rightarrow> analysis_dict" where
  "dict_of n p lo hi =
     \<lparr> dict_outlier_count = n, dict_outlier_percentage = p,
       dict_lower_bound = Some lo, dict_upper_bound = Some hi \<rparr>"

text \<open>
  Rule 5: a declared minimum above the statistical lower bound, or a declared maximum
  below the statistical upper bound.
\<close>

definition business_bound_violated :: "pyfloat \<Rightarrow> pyfloat \<Rightarrow> ColumnMetadata \<Rightarrow> bool" where
  "business_bound_violated lo hi md =
     ((case min_value md of None \<Rightarrow> False | Some least \<Rightarrow> fl_less lo (Fin least)) \<or>
      (case max_value md of None \<Rightarrow> False | Some most \<Rightarrow> fl_less (Fin most) hi))"

definition why_business :: "py_format \<Rightarrow> ColumnMetadata \<Rightarrow> string" where
  "why_business F md =
     ''Outliers violate business rules (min: '' @ str_opt F (min_value md) @
     '', max: '' @ str_opt F (max_value md) @ '') - cap to valid range''"

definition selector_rules ::
  "py_format \<Rightarrow> int \<Rightarrow> real \<Rightarrow> pyfloat \<Rightarrow> pyfloat \<Rightarrow> ColumnMetadata \<Rightarrow> AnalysisConfig \<Rightarrow>
   (bool \<times> OutlierHandling \<times> string) list" where
  "selector_rules F n p lo hi md cfg =
     [(n = 0, LEAVE_AS_IS, ''No outliers detected''),
      (p > 20 / 100, LEAVE_AS_IS,
         ''High outlier percentage ('' @ percent1 F p @ '') suggests '' @
         ''potential data distribution issue - investigate before handling''),
      (unique_flag md, LEAVE_AS_IS,
         ''Unique identifier column - outliers should not be modified''),
      (data_type md = ''categorical'', LEAVE_AS_IS,
         ''Categorical data - outliers represent valid categories''),
      (business_bound_violated lo hi md, CAP_TO_BOUNDS, why_business F md),
      (p < outlier_threshold cfg \<and> (data_type md = ''integer'' \<or> data_type md = ''float''),
         CAP_TO_BOUNDS,
         ''Low outlier percentage ('' @ percent1 F p @ '') - '' @
         ''cap to statistical bounds to preserve data distribution''),
      (p < 10 / 100, CONVERT_TO_NAN,
         ''Medium outlier percentage ('' @ percent1 F p @ '') - '' @
         ''convert to NaN for imputation to avoid bias'')]"

definition selector_otherwise :: "py_format \<Rightarrow> real \<Rightarrow> OutlierHandling \<times> string" where
  "selector_otherwise F p =
     (LEAVE_AS_IS, ''Outlier percentage ('' @ percent1 F p @ '') requires manual review'')"

text \<open>A column is numeric when its declared type is integer or float.\<close>

definition numeric_type :: "ColumnMetadata \<Rightarrow> bool" where
  "numeric_type md = (data_type md = ''integer'' \<or> data_type md = ''float'')"

text \<open>The full outlier list of a column, before the result keeps its first ten entries.\<close>

definition full_outliers :: "series \<Rightarrow> AnalysisConfig \<Rightarrow> real list" where
  "full_outliers s cfg = fst (detect_outliers_iqr s (iqr_multiplier cfg))"

definition full_percentage :: "series \<Rightarrow> AnalysisConfig \<Rightarrow> real" where
  "full_percentage s cfg =
     (if dropna s = [] then 0
      else real (length (full_outliers s cfg)) / real (length (dropna s)))"

subsection \<open>Concrete inputs\<close>

text \<open>A formatter that prints every number as \<open>#\<close>, and the inputs of the examples.\<close>

definition hash_format :: py_format where
  "hash_format = \<lparr> percent1 = (\<lambda>_. ''#''), str_real = (\<lambda>_. ''#'') \<rparr>"

definition float_column :: ColumnMetadata where
  "float_column =
     \<lparr> data_type = ''float'', unique_flag = False, min_value = None, max_value = None \<rparr>"

definition bounded_column :: ColumnMetadata where
  "bounded_column =
     \<lparr> data_type = ''float'', unique_flag = False, min_value = Some 0, max_value = Some 100 \<rparr>"

definition identifier_column :: ColumnMetadata where
  "identifier_column =
     \<lparr> data_type = ''integer'', unique_flag = True, min_value = Some 0, max_value = Some 100 \<rparr>"

definition text_column :: ColumnMetadata where
  "text_column =
     \<lparr> data_type = ''categorical'', unique_flag = False, min_value = None, max_value = None \<rparr>"

definition default_config :: AnalysisConfig where
  "default_config = \<lparr> iqr_multiplier = 15 / 10, outlier_threshold = 5 / 100 \<rparr>"

definition boundless_stats :: analysis_dict where
  "boundless_stats =
     \<lparr> dict_outlier_count = 3, dict_outlier_percentage = 10 / 100,
       dict_lower_bound = None, dict_upper_bound = None \<rparr>"

definition small_column :: series where
  "small_column = [Some 1, Some 2, Some 3, Some 4, Some 5]"

definition wide_column :: series where
  "wide_column =
     [Some 9, Some 0, Some 5, Some 5, Some 9, Some 0, Some 5, None, Some 5, Some 9, Some 0,
      Some 5, Some 5, Some 9, Some 0, Some 5, Some 5, Some 9, Some 0, Some 5, Some 5,
      Some 9, Some 0, Some 5, Some 5, Some 5]"

definition constant_column :: series where
  "constant_column = [Some 2, None, Some 2, Some 2]"

section \<open>Properties\<close>

subsection \<open>The strategy selector\<close>

lemma violates_flag:
  "(if min_value md \<noteq> None \<or> max_value md \<noteq> None then
      let lower = dict_lower_bound (dict_of n p lo hi);
          upper = dict_upper_bound (dict_of n p lo hi);
          v0 = False
      in
      bind_err
        (if min_value md \<noteq> None then
           bind_err (py_less lower (Some (Fin (the (min_value md)))))
             (\<lambda>below. Inr (if below then True else v0))
         else Inr v0)
        (\<lambda>v1.
           if max_value md \<noteq> None then
             bind_err (py_less (Some (Fin (the (max_value md)))) upper)
               (\<lambda>above. Inr (if above then True else v1))
           else Inr v1)
    else Inr False) = Inr (business_bound_violated lo hi md)"
  by (cases "min_value md"; cases "max_value md";
      simp add: business_bound_violated_def dict_of_def bind_err_def py_less_def)

lemma suggest_no_outliers:
  "dict_outlier_count a = 0 \<Longrightarrow>
   suggest_outlier_handling F a md cfg = Inr (LEAVE_AS_IS, ''No outliers detected'')"
  by (simp add: suggest_outlier_handling_def)

lemma suggest_unique:
  "unique_flag md \<Longrightarrow> \<exists>why. suggest_outlier_handling F a md cfg = Inr (LEAVE_AS_IS, why)"
  by (simp add: suggest_outlier_handling_def Let_def)

lemma suggest_total:
  "\<exists>r. suggest_outlier_handling F (dict_of n p lo hi) md cfg = Inr r"
  unfolding suggest_outlier_handling_def violates_flag
  by (simp add: bind_err_def Let_def)

text \<open>
  Without the bounds the selector fails as soon as a declared business bound is compared.
\<close>

lemma suggest_without_bounds:
  "suggest_outlier_handling hash_format boundless_stats bounded_column default_config =
     Inl TypeError"
  by (simp add: suggest_outlier_handling_def boundless_stats_def bounded_column_def
        bind_err_def py_less_def)

text \<open>
  C1. For every count, percentage and pair of bounds, every column metadata and every
  configuration, the selector returns one pair of a strategy and a rationale: the pair
  that the eight rules of section 4.3 give when they are evaluated in their order and the
  first matching rule wins. Count 0, a percentage above 0.20, a unique identifier and the
  categorical type leave the column as it is; a violated business bound caps; a percentage
  below the configured threshold on an integer or float column caps; a percentage below
  0.10 converts to missing; otherwise the column is left as it is.
\<close>

theorem suggest_outlier_handling_first_match:
  "suggest_outlier_handling F (dict_of n p lo hi) md cfg =
     Inr (first_match (selector_rules F n p lo hi md cfg) (selector_otherwise F p))"
  unfolding suggest_outlier_handling_def violates_flag
  by (auto simp add: selector_rules_def selector_otherwise_def why_business_def Let_def
        bind_err_def dict_of_def)

theorem suggest_outlier_handling_first_match_witness:
  "suggest_outlier_handling hash_format (dict_of 3 (10 / 100) (Fin (- 10)) (Fin 50))
     float_column default_config =
     Inr (LEAVE_AS_IS, ''Outlier percentage (#) requires manual review'')"
  using suggest_outlier_handling_first_match
          [of hash_format 3 "10 / 100" "Fin (- 10)" "Fin 50" float_column default_config]
  by (simp add: selector_rules_def selector_otherwise_def business_bound_violated_def
        hash_format_def float_column_def default_config_def)

text \<open>
  C6 (as amended). When a declared business minimum exceeds the statistical lower bound or
  a declared business maximum is below the statistical upper bound, the selector returns
  cap-to-bounds with a rationale naming both declared bounds, provided the count is not 0,
  the percentage is at most 20%, the column is not a unique identifier and its type is not
  categorical. The first theorem is the claim as stated failing: for declared bounds
  [0, 100] and a statistical lower bound of -10, with 3 outliers making 10% of the values,
  a unique-identifier column is left as it is.
\<close>

theorem business_violation_unique_counterexample:
  "min_value identifier_column = Some 0 \<and> max_value identifier_column = Some 100 \<and>
   (3::int) > 0 \<and> (10::real) / 100 \<le> 20 / 100 \<and>
   business_bound_violated (Fin (- 10)) (Fin 50) identifier_column \<and>
   suggest_outlier_handling hash_format (dict_of 3 (10 / 100) (Fin (- 10)) (Fin 50))
     identifier_column default_config =
     Inr (LEAVE_AS_IS, ''Unique identifier column - outliers should not be modified'')"
  by (simp add: suggest_outlier_handling_def dict_of_def identifier_column_def
        business_bound_violated_def)

theorem business_violation_caps:
  assumes "n \<noteq> 0" and "p \<le> 20 / 100"
    and "\<not> unique_flag md" and "data_type md \<noteq> ''categorical''"
    and "business_bound_violated lo hi md"
  shows "suggest_outlier_handling F (dict_of n p lo hi) md cfg =
     Inr (CAP_TO_BOUNDS,
          ''Outliers violate business rules (min: '' @ str_opt F (min_value md) @
          '', max: '' @ str_opt F (max_value md) @ '') - cap to valid range'')"
  unfolding suggest_outlier_handling_def violates_flag
  using assms by (simp add: Let_def bind_err_def dict_of_def)

theorem business_violation_caps_witness:
  "(3::int) \<noteq> 0 \<and> (10::real) / 100 \<le> 20 / 100 \<and>
   \<not> unique_flag bounded_column \<and> data_type bounded_column \<noteq> ''categorical'' \<and>
   business_bound_violated (Fin (- 10)) (Fin 50) bounded_column \<and>
   suggest_outlier_handling hash_format (dict_of 3 (10 / 100) (Fin (- 10)) (Fin 50))
     bounded_column default_config =
     Inr (CAP_TO_BOUNDS,
          ''Outliers violate business rules (min: #, max: #) - cap to valid range'')"
proof -
  have h: "(3::int) \<noteq> 0" "(10::real) / 100 \<le> 20 / 100"
    "\<not> unique_flag bounded_column" "data_type bounded_column \<noteq> ''categorical''"
    "business_bound_violated (Fin (- 10)) (Fin 50) bounded_column"
    by (simp_all add: bounded_column_def business_bound_violated_def)
  show ?thesis
    using h business_violation_caps [OF h, of hash_format default_config]
    by (simp add: str_opt_def hash_format_def bounded_column_def)
qed

subsection \<open>The orchestrator\<close>

lemma analyze_non_numeric:
  "\<not> numeric_type md \<Longrightarrow>
   analyze_outliers F s md cfg =
     Inr \<lparr> outlier_count = 0, outlier_percentage = 0, lower_bound = None,
           upper_bound = None, outlier_values = [], handling_strategy = LEAVE_AS_IS,
           rationale = ''Non-numeric data type ('' @ data_type md @
                       '') - no outlier detection'' \<rparr>"
  by (simp add: analyze_outliers_def numeric_type_def)

lemma percentage_guarded:
  "(if series_count s > 0 then py_truediv (int k) (series_count s) else Inr 0) =
   Inr (if dropna s = [] then 0 else real k / real (length (dropna s)))"
  by (simp add: py_truediv_def series_count_def)

lemma analyze_numeric:
  assumes "numeric_type md"
  shows "\<exists>st why.
     suggest_outlier_handling F
       (dict_of (int (length (full_outliers s cfg))) (full_percentage s cfg)
          (fst (snd (detect_outliers_iqr s (iqr_multiplier cfg))))
          (snd (snd (detect_outliers_iqr s (iqr_multiplier cfg))))) md cfg = Inr (st, why) \<and>
     analyze_outliers F s md cfg =
       Inr \<lparr> outlier_count = int (length (full_outliers s cfg)),
             outlier_percentage = full_percentage s cfg,
             lower_bound = Some (fst (snd (detect_outliers_iqr s (iqr_multiplier cfg)))),
             upper_bound = Some (snd (snd (detect_outliers_iqr s (iqr_multiplier cfg)))),
             outlier_values = take 10 (full_outliers s cfg),
             handling_strategy = st, rationale = why \<rparr>"
proof -
  obtain st why where
    r: "suggest_outlier_handling F
       (dict_of (int (length (full_outliers s cfg))) (full_percentage s cfg)
          (fst (snd (detect_outliers_iqr s (iqr_multiplier cfg))))
          (snd (snd (detect_outliers_iqr s (iqr_multiplier cfg))))) md cfg = Inr (st, why)"
    using suggest_total by (metis surj_pair)
  have "analyze_outliers F s md cfg =
       Inr \<lparr> outlier_count = int (length (full_outliers s cfg)),
             outlier_percentage = full_percentage s cfg,
             lower_bound = Some (fst (snd (detect_outliers_iqr s (iqr_multiplier cfg)))),
             upper_bound = Some (snd (snd (detect_outliers_iqr s (iqr_multiplier cfg)))),
             outlier_values = take 10 (full_outliers s cfg),
             handling_strategy = st, rationale = why \<rparr>"
    using assms r [unfolded dict_of_def full_outliers_def full_percentage_def]
    by (simp add: analyze_outliers_def numeric_type_def percentage_guarded Let_def split_beta
          full_outliers_def full_percentage_def bind_err_def split del: if_split cong: if_cong)
  with r show ?thesis by blast
qed

text \<open>
  C7. When the metadata marks the column as a unique identifier, the selected strategy is
  to leave the column as it is, whatever the count, the percentage and the bounds are, and
  so also when outliers were detected and a declared business bound is violated; the
  result of \<open>analyze_outliers\<close> for such a column carries that strategy.
\<close>

theorem unique_identifier_left_as_is:
  assumes "unique_flag md"
  shows "(\<exists>why. suggest_outlier_handling F a md cfg = Inr (LEAVE_AS_IS, why)) \<and>
         (\<exists>r. analyze_outliers F s md cfg = Inr r \<and> handling_strategy r = LEAVE_AS_IS)"
proof
  show "\<exists>why. suggest_outlier_handling F a md cfg = Inr (LEAVE_AS_IS, why)"
    using assms by (rule suggest_unique)
  show "\<exists>r. analyze_outliers F s md cfg = Inr r \<and> handling_strategy r = LEAVE_AS_IS"
  proof (cases "numeric_type md")
    case False
    from analyze_non_numeric [OF this, of F s cfg] show ?thesis by simp
  next
    case True
    from analyze_numeric [OF this, of F s cfg] obtain st why where
      r: "suggest_outlier_handling F
            (dict_of (int (length (full_outliers s cfg))) (full_percentage s cfg)
               (fst (snd (detect_outliers_iqr s (iqr_multiplier cfg))))
               (snd (snd (detect_outliers_iqr s (iqr_multiplier cfg))))) md cfg = Inr (st, why)"
      and e: "analyze_outliers F s md cfg =
         Inr \<lparr> outlier_count = int (length (full_outliers s cfg)),
               outlier_percentage = full_percentage s cfg,
               lower_bound = Some (fst (snd (detect_outliers_iqr s (iqr_multiplier cfg)))),
               upper_bound = Some (snd (snd (detect_outliers_iqr s (iqr_multiplier cfg)))),
               outlier_values = take 10 (full_outliers s cfg),
               handling_strategy = st, rationale = why \<rparr>"
      by blast
    from r suggest_unique [OF assms, of F
        "dict_of (int (length (full_outliers s cfg))) (full_percentage s cfg)
           (fst (snd (detect_outliers_iqr s (iqr_multiplier cfg))))
           (snd (snd (detect_outliers_iqr s (iqr_multiplier cfg))))" cfg]
    have "st = LEAVE_AS_IS" by auto
    with e show ?thesis by simp
  qed
qed

theorem unique_identifier_left_as_is_witness:
  "unique_flag identifier_column \<and>
   business_bound_violated (Fin (- 10)) (Fin 50) identifier_column \<and>
   suggest_outlier_handling hash_format (dict_of 3 (10 / 100) (Fin (- 10)) (Fin 50))
     identifier_column default_config =
     Inr (LEAVE_AS_IS, ''Unique identifier column - outliers should not be modified'')"
proof -
  have u: "unique_flag identifier_column" by (simp add: identifier_column_def)
  have e: "suggest_outlier_handling hash_format (dict_of 3 (10 / 100) (Fin (- 10)) (Fin 50))
     identifier_column default_config =
     Inr (LEAVE_AS_IS, ''Unique identifier column - outliers should not be modified'')"
    by (simp add: suggest_outlier_handling_def dict_of_def identifier_column_def)
  show ?thesis
    using u e unique_identifier_left_as_is
                [OF u, of hash_format "dict_of 3 (10 / 100) (Fin (- 10)) (Fin 50)"
                   default_config small_column]
    by (simp add: business_bound_violated_def identifier_column_def)
qed

text \<open>
  C5. When the declared data type is neither integer nor float, \<open>analyze_outliers\<close>
  returns, whatever the values of the column are, the result with count 0, percentage 0.0,
  both bounds undefined, an empty sample, the strategy leave-as-is and a rationale that
  names the declared type.
\<close>

theorem analyze_outliers_non_numeric:
  assumes "data_type md \<noteq> ''integer''" and "data_type md \<noteq> ''float''"
  shows "analyze_outliers F s md cfg =
     Inr \<lparr> outlier_count = 0, outlier_percentage = 0, lower_bound = None,
           upper_bound = None, outlier_values = [], handling_strategy = LEAVE_AS_IS,
           rationale = ''Non-numeric data type ('' @ data_type md @
                       '') - no outlier detection'' \<rparr>"
  using assms by (simp add: analyze_outliers_def)

theorem analyze_outliers_non_numeric_witness:
  "data_type text_column \<noteq> ''integer'' \<and> data_type text_column \<noteq> ''float'' \<and>
   analyze_outliers hash_format [Some 1, Some 1, None, Some 1000] text_column default_config =
     Inr \<lparr> outlier_count = 0, outlier_percentage = 0, lower_bound = None,
           upper_bound = None, outlier_values = [], handling_strategy = LEAVE_AS_IS,
           rationale = ''Non-numeric data type (categorical) - no outlier detection'' \<rparr>"
proof -
  have h: "data_type text_column \<noteq> ''integer''" "data_type text_column \<noteq> ''float''"
    by (simp_all add: text_column_def)
  show ?thesis
    using h analyze_outliers_non_numeric
              [OF h, of hash_format "[Some 1, Some 1, None, Some 1000]" default_config]
    by (simp add: text_column_def)
qed

text \<open>
  C3. Whenever the result of \<open>analyze_outliers\<close> has an outlier count of 0, its outlier
  percentage is 0.0 and its handling strategy is leave-as-is.
\<close>

theorem analyze_outliers_zero_count:
  assumes "analyze_outliers F s md cfg = Inr r" and "outlier_count r = 0"
  shows "outlier_percentage r = 0 \<and> handling_strategy r = LEAVE_AS_IS"
proof (cases "numeric_type md")
  case False
  from analyze_non_numeric [OF this, of F s cfg] assms show ?thesis by auto
next
  case True
  from analyze_numeric [OF this, of F s cfg] assms
  show ?thesis by (auto simp: full_percentage_def suggest_no_outliers dict_of_def)
qed

theorem analyze_outliers_zero_count_witness:
  "analyze_outliers hash_format small_column float_column default_config =
     Inr \<lparr> outlier_count = 0, outlier_percentage = 0,
           lower_bound = Some (Fin (- 1)), upper_bound = Some (Fin 7), outlier_values = [],
           handling_strategy = LEAVE_AS_IS, rationale = ''No outliers detected'' \<rparr> \<and>
   outlier_count \<lparr> outlier_count = 0, outlier_percentage = 0,
           lower_bound = Some (Fin (- 1)), upper_bound = Some (Fin 7), outlier_values = [],
           handling_strategy = LEAVE_AS_IS, rationale = ''No outliers detected'' \<rparr> = 0 \<and>
   outlier_percentage \<lparr> outlier_count = 0, outlier_percentage = 0,
           lower_bound = Some (Fin (- 1)), upper_bound = Some (Fin 7), outlier_values = [],
           handling_strategy = LEAVE_AS_IS, rationale = ''No outliers detected'' \<rparr> = 0 \<and>
   handling_strategy \<lparr> outlier_count = 0, outlier_percentage = 0,
           lower_bound = Some (Fin (- 1)), upper_bound = Some (Fin 7), outlier_values = [],
           handling_strategy = LEAVE_AS_IS, rationale = ''No outliers detected'' \<rparr> = LEAVE_AS_IS"
proof -
  have e: "analyze_outliers hash_format small_column float_column default_config =
     Inr \<lparr> outlier_count = 0, outlier_percentage = 0,
           lower_bound = Some (Fin (- 1)), upper_bound = Some (Fin 7), outlier_values = [],
           handling_strategy = LEAVE_AS_IS, rationale = ''No outliers detected'' \<rparr>"
    by code_simp
  show ?thesis using e analyze_outliers_zero_count [OF e] by simp
qed

text \<open>
  C4. For a numeric column the result's outlier count is the length of the full outlier
  list, its outlier percentage is that count divided by the number of non-missing values
  (0.0 when there are none), and its outlier sample is the first ten entries of the full
  list in their order, so never longer than ten; the count and the percentage are those
  of the full list.
\<close>

theorem analyze_outliers_count_percentage_sample:
  assumes "numeric_type md"
  shows "\<exists>r. analyze_outliers F s md cfg = Inr r \<and>
     outlier_count r = int (length (full_outliers s cfg)) \<and>
     outlier_percentage r =
       (if length (dropna s) = 0 then 0
        else real (length (full_outliers s cfg)) / real (length (dropna s))) \<and>
     outlier_values r = take 10 (full_outliers s cfg) \<and>
     length (outlier_values r) \<le> 10"
  using analyze_numeric [OF assms, of F s cfg]
  by (auto simp add: full_percentage_def)

theorem analyze_outliers_count_percentage_sample_witness:
  "numeric_type float_column \<and>
   (\<exists>r. analyze_outliers hash_format wide_column float_column default_config = Inr r \<and>
      outlier_count r = 12 \<and> outlier_percentage r = 12 / 25 \<and>
      outlier_values r = [9, 0, 9, 0, 9, 0, 9, 0, 9, 0])"
proof -
  have n: "numeric_type float_column" by (simp add: numeric_type_def float_column_def)
  have f: "full_outliers wide_column default_config = [9, 0, 9, 0, 9, 0, 9, 0, 9, 0, 9, 0]"
    by code_simp
  have d: "length (dropna wide_column) = 25" by (simp add: wide_column_def)
  show ?thesis
    using n analyze_outliers_count_percentage_sample
                [OF n, of hash_format wide_column default_config]
    by (auto simp add: f d)
qed

subsection \<open>The z-score detector\<close>

lemma mean_constant:
  assumes "xs \<noteq> []" and "\<forall>x\<in>set xs. x = c"
  shows "mean xs = c"
proof -
  have "xs = replicate (length xs) c" using assms(2) by (simp add: replicate_length_same)
  then have "sum_list xs = real (length xs) * c" by (metis sum_list_replicate)
  then show ?thesis using assms(1) by (simp add: mean_def)
qed

lemma std_constant:
  assumes "xs \<noteq> []" and "\<forall>x\<in>set xs. x = c"
  shows "std xs = 0"
proof -
  have c: "mean xs = c" using assms by (rule mean_constant)
  have e: "map (\<lambda>x. (x - mean xs)\<^sup>2) xs = map (\<lambda>x. 0) xs"
    unfolding c using assms(2) by simp
  have "mean (map (\<lambda>x. (x - mean xs)\<^sup>2) xs) = mean (map (\<lambda>x. 0) xs)"
    by (simp only: e)
  also have "\<dots> = 0" by (simp add: mean_def)
  finally have "mean (map (\<lambda>x. (x - mean xs)\<^sup>2) xs) = 0" .
  then show ?thesis by (simp add: std_def)
qed

lemma zscore_constant:
  assumes "xs \<noteq> []" and "\<forall>x\<in>set xs. x = c"
  shows "zscore xs = replicate (length xs) NaN"
proof -
  have "zscore xs = map (\<lambda>x. NaN) xs"
    using assms by (simp add: zscore_def std_constant mean_constant)
  then show ?thesis by (simp add: map_replicate_const)
qed

lemma zscore_detect_constant:
  assumes "dropna s \<noteq> []" and "\<forall>x\<in>set (dropna s). x = c"
  shows "detect_outliers_zscore s t = []"
proof -
  have "\<forall>p\<in>set (zip (dropna s) (map fl_abs (zscore (dropna s)))). snd p = NaN"
    by (auto simp: zscore_constant [OF assms] dest!: set_zip_rightD)
  then have "filter (\<lambda>(x, z). fl_less (Fin t) z)
               (zip (dropna s) (map fl_abs (zscore (dropna s)))) = []"
    by (auto simp: filter_empty_conv)
  then show ?thesis by (simp add: detect_outliers_zscore_def Let_def)
qed


text \<open>
  C10. For a sequence with at least one non-missing value whose non-missing values are all
  equal, the standard deviation is zero, every z-score is not-a-number, no comparison of a
  z-score with the threshold holds, and the z-score detector returns the empty list.
\<close>

theorem zscore_constant_no_outliers:
  assumes "dropna s \<noteq> []" and "\<forall>x\<in>set (dropna s). x = c"
  shows "std (dropna s) = 0 \<and>
         zscore (dropna s) = replicate (length (dropna s)) NaN \<and>
         (\<forall>z\<in>set (map fl_abs (zscore (dropna s))). \<not> fl_less (Fin t) z) \<and>
         detect_outliers_zscore s t = []"
  using assms
  by (simp add: std_constant zscore_constant zscore_detect_constant)

theorem zscore_constant_no_outliers_witness:
  "dropna constant_column = [2, 2, 2] \<and>
   zscore (dropna constant_column) = [NaN, NaN, NaN] \<and>
   detect_outliers_zscore constant_column 3 = []"
proof -
  have h: "dropna constant_column \<noteq> []" "\<forall>x\<in>set (dropna constant_column). x = 2"
    by (simp_all add: constant_column_def)
  have l: "replicate (length (dropna constant_column)) NaN = [NaN, NaN, NaN]"
    by (simp add: constant_column_def)
  have d: "dropna constant_column = [2, 2, 2]" by (simp add: constant_column_def)
  have "zscore (dropna constant_column) = [NaN, NaN, NaN] \<and>
        detect_outliers_zscore constant_column 3 = []"
    using zscore_constant_no_outliers [OF h, of 3] by (simp add: l)
  with d show ?thesis by simp
qed

end
